theory Spec2Isabelle
  imports Main
begin

section \<open>Go values used by the program\<close>

subsection \<open>Errors\<close>

text \<open>
  Go errors are values. The program builds them with \<^verbatim>\<open>errors.New\<close> and with
  \<^verbatim>\<open>fmt.Errorf("...: %w", err)\<close>, which wraps its last argument; the operating system
  and the standard library return sentinel errors, system error numbers, path errors and
  exit errors. An \<open>Errorf\<close> value keeps the format string, the other arguments and the
  wrapped error.
\<close>

datatype errno =
    ENOENT | ENOTDIR | EACCES | EPERM | EEXIST | ENOTEMPTY | ENAMETOOLONG | ECONNREFUSED | EIO

datatype error =
    ErrNotExist
  | ErrPermission
  | ErrExist
  | ErrNoDeadline
  | ErrDeadlineExceeded
  | ErrShortWrite
  | ErrNotFound
  | Canceled
  | Errno errno
  | ExitError nat
  | New string
  | Errorf string "string list" error
  | PathError string string error

text \<open>
  \<^verbatim>\<open>syscall.Errno.Is\<close>: the error numbers that stand for the portable sentinels of
  package os.
\<close>

fun errno_Is :: "errno \<Rightarrow> error \<Rightarrow> bool" where
  "errno_Is ENOENT t = (t = ErrNotExist)"
| "errno_Is EACCES t = (t = ErrPermission)"
| "errno_Is EPERM t = (t = ErrPermission)"
| "errno_Is EEXIST t = (t = ErrExist)"
| "errno_Is ENOTEMPTY t = (t = ErrExist)"
| "errno_Is _ t = False"

text \<open>
  \<^verbatim>\<open>errors.Is(err, target)\<close> walks the chain of wrapped errors. Go compares the
  pointers of wrapper values; the targets used below are sentinels, for which that is
  the equality written here.
\<close>

fun errors_Is :: "error \<Rightarrow> error \<Rightarrow> bool" where
  "errors_Is (Errorf f xs e) t = (Errorf f xs e = t \<or> errors_Is e t)"
| "errors_Is (PathError opn p e) t = (PathError opn p e = t \<or> errors_Is e t)"
| "errors_Is (Errno n) t = (Errno n = t \<or> errno_Is n t)"
| "errors_Is e t = (e = t)"

subsection \<open>Structured log entries (logrus)\<close>

datatype level = InfoLevel | ErrorLevel

datatype fval = FStr string | FInt int | FErr error

type_synonym fields = "string \<rightharpoonup> fval"

datatype formatter = TextFormatter | JSONFormatter string string

record logger =
  logger_Formatter :: formatter

record entry =
  entry_Logger :: logger
  entry_Data :: fields

text \<open>
  \<^verbatim>\<open>Entry.WithFields\<close> copies the entry's data and then stores every new field, so
  a new field replaces an old one of the same key. \<^verbatim>\<open>WithError(err)\<close> is
  \<^verbatim>\<open>WithField("error", err)\<close>.
\<close>

definition WithFields :: "entry \<Rightarrow> (string \<times> fval) list \<Rightarrow> entry" where
  "WithFields l kvs = l\<lparr>entry_Data := entry_Data l ++ map_of (rev kvs)\<rparr>"

definition WithField :: "entry \<Rightarrow> string \<Rightarrow> fval \<Rightarrow> entry" where
  "WithField l k v = WithFields l [(k, v)]"

definition WithError :: "entry \<Rightarrow> error \<Rightarrow> entry" where
  "WithError l e = WithField l ''error'' (FErr e)"

text \<open>\<^verbatim>\<open>Logger.WithFields\<close> starts from an entry without data.\<close>

definition Logger_WithFields :: "logger \<Rightarrow> (string \<times> fval) list \<Rightarrow> entry" where
  "Logger_WithFields lg kvs = WithFields \<lparr>entry_Logger = lg, entry_Data = Map.empty\<rparr> kvs"

subsection \<open>The world: files, and the trace of system calls and log calls\<close>

datatype resource = Listener | ClientConn | ServerConn | FileHandle string

datatype action =
    SysStart string "string list"
  | SysWait
  | SysCreate string
  | SysWrite resource string
  | SysClose resource
  | SysRemove string
  | SysListen
  | SysSetDeadline resource
  | SysAccept
  | SysDial string
  | LogEvent level string fields

record world =
  files :: "string \<rightharpoonup> string"
  trace :: "action list"

definition emit :: "action \<Rightarrow> world \<Rightarrow> world" where
  "emit a w = w\<lparr>trace := trace w @ [a]\<rparr>"

text \<open>
  \<^verbatim>\<open>errLog\<close> of the source: an error is logged at error level with the error as a
  field, success at info level. The trace records a log call when the program makes it,
  with the level, the message and the data of the entry; what the logger's own level and
  formatter then do with it is outside the program.
\<close>

definition Entry_Error :: "entry \<Rightarrow> string \<Rightarrow> world \<Rightarrow> world" where
  "Entry_Error l msg w = emit (LogEvent ErrorLevel msg (entry_Data l)) w"

definition Entry_Info :: "entry \<Rightarrow> string \<Rightarrow> world \<Rightarrow> world" where
  "Entry_Info l msg w = emit (LogEvent InfoLevel msg (entry_Data l)) w"

definition errLog :: "entry \<Rightarrow> error option \<Rightarrow> string \<Rightarrow> world \<Rightarrow> world" where
  "errLog l e msg w =
     (case e of
        Some err \<Rightarrow> Entry_Error (WithError l err) msg w
      | None \<Rightarrow> Entry_Info l msg w)"

subsection \<open>The environment\<close>

text \<open>
  What the operating system answers is not decided by the program. Each answer is a
  field of the environment: the behaviour of the launched process, the faults of the
  file system and of the network.

  A launched process either cannot be started, or runs and exits with a status, or the
  wait for it fails with an error of its own (input or output copying, cancellation).
\<close>

datatype proc_behaviour = StartFails error | Exits nat | WaitFails error

record ctx =
  deadline :: "nat option"

record env =
  user_Current :: "error + string"
  os_Args :: "string list"
  os_Getpid :: int
  exec_behaviour :: "string \<Rightarrow> string list \<Rightarrow> proc_behaviour"
  os_TempDir :: string
  filepath_Abs :: "string \<Rightarrow> error + string"
  filepath_Join :: "string \<Rightarrow> string \<Rightarrow> string"
  rand_source :: nat
  path_key :: "string \<Rightarrow> string"
  create_fault :: "string \<Rightarrow> errno option"
  setdeadline_fault :: "error option"
  write_fault :: "(nat \<times> error) option"
  close_fault :: "error option"
  remove_fault :: "string \<Rightarrow> errno option"
  listen_result :: "error + string"
  listener_deadline_fault :: "error option"
  accept_fault :: "error option"
  srv_deadline_fault :: "error option"
  srv_read_fault :: "(nat \<times> error) option"
  srv_segments :: "nat list"
  dial_result :: "string \<Rightarrow> error + (string \<times> string)"
  cli_write_fault :: "(nat \<times> error) option"
  cli_close_fault :: "error option"
  listener_close_fault :: "error option"

section \<open>The activity generator\<close>

text \<open>
  A panic of the Go runtime (here: indexing the empty argument vector) is a result of
  its own.
\<close>

datatype 'a go = Return 'a | Panic


record ActivityGenerator =
  ag_Log :: entry

text \<open>
  The fields common to all activities, as both \<^verbatim>\<open>NewActivityGenerator\<close> and
  \<^verbatim>\<open>RunActivities\<close> build them. \<^verbatim>\<open>strings.Join\<close> puts the separator between
  the elements.
\<close>

fun strings_Join :: "string list \<Rightarrow> string \<Rightarrow> string" where
  "strings_Join [] sep = []"
| "strings_Join [x] sep = x"
| "strings_Join (x # y # ys) sep = x @ sep @ strings_Join (y # ys) sep"

definition common_fields :: "string \<Rightarrow> string \<Rightarrow> string list \<Rightarrow> int \<Rightarrow> (string \<times> fval) list" where
  "common_fields username arg0 args pid =
     [(''username'', FStr username),
      (''process name'', FStr arg0),
      (''process command line'', FStr (strings_Join args '' '')),
      (''process ID'', FInt pid)]"


section \<open>The process driver\<close>

text \<open>
  Package os/exec: \<^verbatim>\<open>Cmd.Start\<close> fails when the process cannot be started;
  \<^verbatim>\<open>Cmd.Wait\<close> returns nil when the command exits with status zero and an
  \<^verbatim>\<open>*ExitError\<close> when it exits with another status. A context that is cancelled
  while the process runs kills it, which the wait reports as an error: that is the
  behaviour \<open>WaitFails\<close> of the environment. The standard output and error of the
  process are those of the caller and leave no entry in the trace.
\<close>

definition cmd_Start :: "proc_behaviour \<Rightarrow> error option" where
  "cmd_Start b = (case b of StartFails e \<Rightarrow> Some e | _ \<Rightarrow> None)"

definition cmd_Wait :: "proc_behaviour \<Rightarrow> error option" where
  "cmd_Wait b =
     (case b of
        StartFails e \<Rightarrow> Some (New ''exec: not started'')
      | Exits n \<Rightarrow> (if n = 0 then None else Some (ExitError n))
      | WaitFails e \<Rightarrow> Some e)"

definition RunProcess ::
    "env \<Rightarrow> ActivityGenerator \<Rightarrow> ctx \<Rightarrow> string \<Rightarrow> string list \<Rightarrow> world \<Rightarrow> error option \<times> world" where
  "RunProcess en ag c path args w =
     (let cmd = exec_behaviour en path args;
          err = cmd_Start cmd;
          w1 = errLog (ag_Log ag) err ''process start'' (emit (SysStart path args) w)
      in case err of
           Some e \<Rightarrow> (Some (Errorf ''error starting command: %w'' [] e), w1)
         | None \<Rightarrow>
             (case cmd_Wait cmd of
                Some e \<Rightarrow> (Some (Errorf ''error running command: %w'' [] e), emit SysWait w1)
              | None \<Rightarrow> (None, emit SysWait w1)))"

section \<open>Readers, writers and \<^verbatim>\<open>io.Copy\<close>\<close>

text \<open>
  A reader yields its chunks one \<^verbatim>\<open>Read\<close> at a time and then ends, with
  \<^verbatim>\<open>io.EOF\<close> (\<open>None\<close>) or with an error. A writer keeps what it has accepted;
  a faulty writer accepts a number of further bytes and then fails with its error,
  having written the part that fitted.
\<close>

record reader =
  chunks :: "string list"
  rerr :: "error option"

record writer =
  wbuf :: string
  wfail :: "(nat \<times> error) option"

definition writer_Write :: "writer \<Rightarrow> string \<Rightarrow> nat \<times> error option \<times> writer" where
  "writer_Write wr p =
     (case wfail wr of
        None \<Rightarrow> (length p, None, wr\<lparr>wbuf := wbuf wr @ p\<rparr>)
      | Some (room, e) \<Rightarrow>
          (if length p \<le> room
           then (length p, None, wr\<lparr>wbuf := wbuf wr @ p, wfail := Some (room - length p, e)\<rparr>)
           else (room, Some e, wr\<lparr>wbuf := wbuf wr @ take room p, wfail := Some (0, e)\<rparr>)))"

text \<open>
  The loop of \<^verbatim>\<open>io.Copy\<close>: a read of no bytes writes nothing; a write error or a
  short write ends the copy; the reader's end ends it, with the reader's error unless
  that is the end of file. The count is the number of bytes written.
\<close>

fun copy_loop :: "writer \<Rightarrow> string list \<Rightarrow> error option \<Rightarrow> nat \<Rightarrow> nat \<times> error option \<times> writer" where
  "copy_loop wr [] er written = (written, er, wr)"
| "copy_loop wr (p # ps) er written =
     (if p = [] then copy_loop wr ps er written
      else (case writer_Write wr p of
              (nw, ew, wr') \<Rightarrow>
                (case ew of
                   Some e \<Rightarrow> (written + nw, Some e, wr')
                 | None \<Rightarrow>
                     (if nw \<noteq> length p then (written + nw, Some ErrShortWrite, wr')
                      else copy_loop wr' ps er (written + nw)))))"

definition io_Copy :: "writer \<Rightarrow> reader \<Rightarrow> nat \<times> error option \<times> writer" where
  "io_Copy dst src = copy_loop dst (chunks src) (rerr src) 0"

definition strings_NewReader :: "string \<Rightarrow> reader" where
  "strings_NewReader s = \<lparr>chunks = [s], rerr = None\<rparr>"

section \<open>The file lifecycle driver\<close>

text \<open>
  The file system is a map from files to contents. A path, relative or absolute, names
  the file that \<open>path_key\<close> of the environment gives for it, so two paths of the same
  file have the same key. Creating a file truncates it. What the removal of a path
  answers is the operating system's: the environment may make it fail with an error
  number of its choice, whether the file is there or not (\<open>ENOTDIR\<close> when a component
  of the path is not a directory, \<open>EACCES\<close> when a directory may not be searched or
  written, ...); when the environment raises no fault, a file that is not there answers
  \<open>ENOENT\<close> and a file that is there is removed. An open file is known by its name.
\<close>

record os_File =
  file_Name :: string

definition os_Create :: "env \<Rightarrow> string \<Rightarrow> world \<Rightarrow> (error + os_File) \<times> world" where
  "os_Create en path w =
     (let w1 = emit (SysCreate path) w
      in case create_fault en path of
           Some n \<Rightarrow> (Inl (PathError ''open'' path (Errno n)), w1)
         | None \<Rightarrow>
             (Inr \<lparr>file_Name = path\<rparr>, w1\<lparr>files := (files w1)(path_key en path \<mapsto> [])\<rparr>))"

definition os_Remove :: "env \<Rightarrow> string \<Rightarrow> world \<Rightarrow> error option \<times> world" where
  "os_Remove en path w =
     (let w1 = emit (SysRemove path) w
      in case remove_fault en path of
           Some n \<Rightarrow> (Some (PathError ''remove'' path (Errno n)), w1)
         | None \<Rightarrow>
             (if files w (path_key en path) = None
              then (Some (PathError ''remove'' path (Errno ENOENT)), w1)
              else (None, w1\<lparr>files := (files w1)(path_key en path := None)\<rparr>)))"

definition file_Close :: "env \<Rightarrow> os_File \<Rightarrow> world \<Rightarrow> error option \<times> world" where
  "file_Close en f w = (close_fault en, emit (SysClose (FileHandle (file_Name f))) w)"

text \<open>
  Writing through an open file: the bytes accepted are appended to the file's contents
  (when the path still names the file), and the write is one entry of the trace.
\<close>

definition file_writer :: "env \<Rightarrow> world \<Rightarrow> os_File \<Rightarrow> writer" where
  "file_writer en w f =
     \<lparr>wbuf = (case files w (path_key en (file_Name f)) of Some s \<Rightarrow> s | None \<Rightarrow> []),
      wfail = write_fault en\<rparr>"

definition file_store :: "env \<Rightarrow> os_File \<Rightarrow> writer \<Rightarrow> writer \<Rightarrow> world \<Rightarrow> world" where
  "file_store en f wr0 wr w =
     (let w1 = emit (SysWrite (FileHandle (file_Name f)) (drop (length (wbuf wr0)) (wbuf wr))) w
      in if files w (path_key en (file_Name f)) = None then w1
         else w1\<lparr>files := (files w1)(path_key en (file_Name f) \<mapsto> wbuf wr)\<rparr>)"

definition file_WriteString :: "env \<Rightarrow> os_File \<Rightarrow> string \<Rightarrow> world \<Rightarrow> (nat \<times> error option) \<times> world" where
  "file_WriteString en f s w =
     (let wr0 = file_writer en w f
      in case writer_Write wr0 s of (n, e, wr) \<Rightarrow> ((n, e), file_store en f wr0 wr w))"



definition DeleteFile ::
    "env \<Rightarrow> ActivityGenerator \<Rightarrow> string \<Rightarrow> world \<Rightarrow> error option \<times> world" where
  "DeleteFile en ag path w =
     (case filepath_Abs en path of
        Inl e \<Rightarrow> (Some (Errorf ''unable to get absolute path from %q: %w'' [path] e), w)
      | Inr absPath \<Rightarrow>
          (let l = WithFields (ag_Log ag)
                     [(''file activity'', FStr ''delete''), (''file path'', FStr absPath)]
           in case os_Remove en path w of
                (err, w1) \<Rightarrow>
                  (let w2 = errLog l err ''delete file'' w1
                   in case err of
                        Some e \<Rightarrow> (Some (Errorf ''error attempting to delete file: %w'' [] e), w2)
                      | None \<Rightarrow> (None, w2))))"

section \<open>Network transmission\<close>

text \<open>
  \<^verbatim>\<open>ConnectAndTransmit\<close>: the nil check comes before the dial; the close of the
  connection is deferred, so it runs on every return after a successful dial. The
  dialled connection is a writer whose fault is the environment's.
\<close>

definition client_conn :: "env \<Rightarrow> writer" where
  "client_conn en = \<lparr>wbuf = [], wfail = cli_write_fault en\<rparr>"

definition ConnectAndTransmit ::
    "env \<Rightarrow> ActivityGenerator \<Rightarrow> ctx \<Rightarrow> string \<Rightarrow> reader option \<Rightarrow> world \<Rightarrow> error option \<times> world" where
  "ConnectAndTransmit en ag c addr payload w =
     (case payload of
        None \<Rightarrow> (Some (New ''invalid nil payload io.Reader''), w)
      | Some rd \<Rightarrow>
          (let w0 = emit (SysDial addr) w
           in case dial_result en addr of
                Inl e \<Rightarrow> (Some (Errorf ''unable to connect to address %q: %w'' [addr] e), w0)
              | Inr (localAddr, remoteAddr) \<Rightarrow>
                  (let l = WithFields (ag_Log ag)
                             [(''destination address'', FStr remoteAddr),
                              (''source address'', FStr localAddr),
                              (''protocol'', FStr ''tcp'')]
                   in case io_Copy (client_conn en) rd of
                        (sent, err, conn) \<Rightarrow>
                          (let w1 = emit (SysWrite ClientConn (wbuf conn)) w0;
                               w2 = errLog (WithField l ''data sent (bytes)'' (FInt (int sent)))
                                      err ''data transmission'' w1;
                               res = (case err of
                                        Some e \<Rightarrow> Some (Errorf ''error transmitting data: %w'' [] e)
                                      | None \<Rightarrow> None);
                               w3 = emit (SysClose ClientConn) w2;
                               w4 = (case cli_close_fault en of
                                       Some e \<Rightarrow>
                                         Entry_Error (WithError (ag_Log ag) e)
                                           ''close client network connection'' w3
                                     | None \<Rightarrow> w3)
                           in (res, w4)))))"

subsection \<open>The loopback transport\<close>

text \<open>
  The bytes the client connection accepted are the stream the server connection reads.
  The server reads it in segments of the sizes the environment gives (what is left after
  the last size is one more segment), and the environment may cut the stream with a read
  error after a number of bytes.
\<close>

fun segments :: "nat list \<Rightarrow> string \<Rightarrow> string list" where
  "segments [] s = [s]"
| "segments (n # ns) s = take n s # segments ns (drop n s)"

definition server_conn :: "env \<Rightarrow> string \<Rightarrow> reader" where
  "server_conn en wire =
     (case srv_read_fault en of
        None \<Rightarrow> \<lparr>chunks = segments (srv_segments en) wire, rerr = None\<rparr>
      | Some (n, e) \<Rightarrow> \<lparr>chunks = segments (srv_segments en) (take n wire), rerr = Some e\<rparr>)"

text \<open>
  The function handed to \<^verbatim>\<open>g.Go\<close> (lines 49 to 64): accept, set the read deadline when
  the context has one, copy the connection into \<open>w\<close>. Its result is its error, the sink
  after the copy, and the system calls it made. It makes no log call and does not close
  the connection it accepted.
\<close>

definition server_task ::
    "env \<Rightarrow> bool \<Rightarrow> string \<Rightarrow> writer \<Rightarrow> error option \<times> writer \<times> action list" where
  "server_task en dlOk wire snk =
     (case accept_fault en of
        Some e \<Rightarrow> (Some (Errorf ''error accepting connection: %w'' [] e), snk, [SysAccept])
      | None \<Rightarrow>
          (case (if dlOk then srv_deadline_fault en else None) of
             Some e \<Rightarrow>
               (Some (Errorf ''unable to set server connection deadline: %w'' [] e), snk,
                [SysAccept, SysSetDeadline ServerConn])
           | None \<Rightarrow>
               (case io_Copy snk (server_conn en wire) of
                  (n, err, snk') \<Rightarrow>
                    ((case err of
                        Some e \<Rightarrow>
                          Some (Errorf ''error copying data from server connection: %w'' [] e)
                      | None \<Rightarrow> None),
                     snk',
                     (if dlOk then [SysAccept, SysSetDeadline ServerConn] else [SysAccept])))))"

text \<open>
  The result of \<^verbatim>\<open>LocalhostTCPConnect\<close>: the bytes sent, the error, and, on the path
  that reaches \<^verbatim>\<open>g.Wait()\<close>, what the server-side task returned. On the other paths
  the function returns without waiting for that task, and nothing of it is known.
\<close>

record tcp_result =
  tr_sent :: nat
  tr_err :: "error option"
  tr_server :: "(error option \<times> writer \<times> action list) option"

text \<open>
  Lines 42 to 90, after the listener exists and its close is deferred. The entry \<open>log\<close>
  is a variable the deferred close reads, so its last value is returned too.
\<close>

definition transmit ::
    "env \<Rightarrow> ctx \<Rightarrow> entry \<Rightarrow> reader \<Rightarrow> writer \<Rightarrow> string \<Rightarrow> world \<Rightarrow> (tcp_result \<times> entry) \<times> world" where
  "transmit en c log rd snk laddr w =
     (let dlOk = (deadline c \<noteq> None);
          w0 = (if dlOk then emit (SysSetDeadline Listener) w else w)
      in case (if dlOk then listener_deadline_fault en else None) of
           Some e \<Rightarrow>
             ((\<lparr>tr_sent = 0,
                tr_err = Some (Errorf ''unable to set listener deadline: %w'' [] e),
                tr_server = None\<rparr>, log), w0)
         | None \<Rightarrow>
             (let w1 = emit (SysDial laddr) w0
              in case dial_result en laddr of
                   Inl e \<Rightarrow>
                     ((\<lparr>tr_sent = 0,
                        tr_err = Some (Errorf ''unable to connect to loopback TCP listener: %w'' [] e),
                        tr_server = None\<rparr>, log), w1)
                 | Inr (localAddr, remoteAddr) \<Rightarrow>
                     (case io_Copy (client_conn en) rd of
                        (sent, err, conn) \<Rightarrow>
                          (let w2 = emit (SysWrite ClientConn (wbuf conn)) w1;
                               log' = WithFields log
                                        [(''destination address'', FStr remoteAddr),
                                         (''source address'', FStr localAddr),
                                         (''protocol'', FStr ''tcp''),
                                         (''data sent (bytes)'', FInt (int sent))];
                               w3 = errLog log' err ''data transmission'' w2
                           in case err of
                                Some e \<Rightarrow>
                                  ((\<lparr>tr_sent = sent,
                                     tr_err = Some (Errorf ''error copying data to client connection: %w'' [] e),
                                     tr_server = None\<rparr>, log'), w3)
                              | None \<Rightarrow>
                                  (let w4 = emit (SysClose ClientConn) w3
                                   in case cli_close_fault en of
                                        Some e \<Rightarrow>
                                          ((\<lparr>tr_sent = sent,
                                             tr_err = Some (Errorf ''error closing client connection: %w'' [] e),
                                             tr_server = None\<rparr>, log'), w4)
                                      | None \<Rightarrow>
                                          (let srv = server_task en dlOk (wbuf conn) snk
                                           in ((\<lparr>tr_sent = sent,
                                                 tr_err = (case fst srv of
                                                             Some e \<Rightarrow> Some (Errorf ''server listener error: %w'' [] e)
                                                           | None \<Rightarrow> None),
                                                 tr_server = Some srv\<rparr>, log'), w4)))))))"

definition LocalhostTCPConnect ::
    "env \<Rightarrow> ctx \<Rightarrow> entry \<Rightarrow> reader \<Rightarrow> writer \<Rightarrow> world \<Rightarrow> tcp_result \<times> world" where
  "LocalhostTCPConnect en c log rd snk w =
     (let w0 = emit SysListen w
      in case listen_result en of
           Inl e \<Rightarrow>
             (\<lparr>tr_sent = 0,
               tr_err = Some (Errorf ''unable to create TCP listener: %w'' [] e),
               tr_server = None\<rparr>, w0)
         | Inr laddr \<Rightarrow>
             (case transmit en c log rd snk laddr w0 of
                ((res, log'), w1) \<Rightarrow>
                  (let w2 = emit (SysClose Listener) w1;
                       w3 = (case listener_close_fault en of
                               Some e \<Rightarrow> Entry_Error (WithError log' e) ''close TCP listener'' w2
                             | None \<Rightarrow> w2)
                   in (res, w3))))"

section \<open>The orchestrator\<close>

text \<open>\<^verbatim>\<open>strconv.Itoa\<close>, and \<^verbatim>\<open>Rand.Intn\<close> as some number below its bound.\<close>

fun utoa :: "nat \<Rightarrow> string" where
  "utoa n =
     (if n < 10 then [''0123456789'' ! n]
      else utoa (n div 10) @ [''0123456789'' ! (n mod 10)])"

declare utoa.simps [simp del]

definition Itoa :: "int \<Rightarrow> string" where
  "Itoa i = (if i < 0 then CHR ''-'' # utoa (nat (- i)) else utoa (nat i))"

definition rand_Intn :: "env \<Rightarrow> nat \<Rightarrow> int" where
  "rand_Intn en n = int (rand_source en mod n)"

text \<open>
  The closure of lines 148 to 170. The body writes and logs the modification; the
  deferred function closes the file (logging a failure of the close), removes it, logs
  the removal, and makes the removal's error the result only when the body returned
  none.
\<close>

definition modify_and_cleanup ::
    "env \<Rightarrow> entry \<Rightarrow> entry \<Rightarrow> os_File \<Rightarrow> world \<Rightarrow> error option \<times> world" where
  "modify_and_cleanup en log fLog f w =
     (case file_WriteString en f ''file append'' w of
        ((n, werr), w1) \<Rightarrow>
          (let w2 = errLog (WithField fLog ''file activity'' (FStr ''modify'')) werr ''modify file'' w1;
               e = (case werr of
                      Some x \<Rightarrow> Some (Errorf ''unable to write to string: %w'' [] x)
                    | None \<Rightarrow> None)
           in case file_Close en f w2 of
                (cerr, w3) \<Rightarrow>
                  (let w4 = (case cerr of
                               Some x \<Rightarrow> Entry_Error (WithError log x) ''close file'' w3
                             | None \<Rightarrow> w3)
                   in case os_Remove en (file_Name f) w4 of
                        (rerr', w5) \<Rightarrow>
                          (let w6 = errLog (WithField fLog ''file activity'' (FStr ''delete''))
                                      rerr' ''delete file'' w5
                           in ((case rerr' of
                                  Some x \<Rightarrow>
                                    (if e = None
                                     then Some (Errorf ''unable to delete file: %w'' [] x)
                                     else e)
                                | None \<Rightarrow> e), w6)))))"

text \<open>Lines 126 to 173: the file stage, run after the process stage.\<close>

definition file_stage ::
    "env \<Rightarrow> entry \<Rightarrow> string \<Rightarrow> string \<Rightarrow> world \<Rightarrow> error option \<times> world" where
  "file_stage en log directory fileExt w =
     (let dir = (if directory = [] then os_TempDir en else directory)
      in case filepath_Abs en dir of
           Inl e \<Rightarrow> (Some (Errorf ''unable to get absolute path for directory: %w'' [] e), w)
         | Inr absDir \<Rightarrow>
             (let path = filepath_Join en absDir (Itoa (rand_Intn en 1000000) @ fileExt);
                  fLog = WithFields log
                           [(''file path'', FStr path), (''file activity'', FStr ''create'')]
              in case os_Create en path w of
                   (Inl e, w1) \<Rightarrow>
                     (Some (Errorf ''unable to create file: %w'' [] e),
                      errLog fLog (Some e) ''create file'' w1)
                 | (Inr f, w1) \<Rightarrow>
                     modify_and_cleanup en log fLog f (errLog fLog None ''create file'' w1)))"

text \<open>Lines 115 to 124: the process stage, which runs \<^verbatim>\<open>echo\<close>.\<close>

definition process_stage ::
    "env \<Rightarrow> entry \<Rightarrow> string list \<Rightarrow> world \<Rightarrow> error option \<times> world" where
  "process_stage en log arguments w =
     (let cmd = exec_behaviour en ''echo'' arguments;
          err = cmd_Start cmd;
          w1 = errLog log err ''process start'' (emit (SysStart ''echo'' arguments) w)
      in case err of
           Some e \<Rightarrow> (Some (Errorf ''error starting the command: %w'' [] e), w1)
         | None \<Rightarrow>
             (case cmd_Wait cmd of
                Some e \<Rightarrow> (Some (Errorf ''command error: %w'' [] e), emit SysWait w1)
              | None \<Rightarrow> (None, emit SysWait w1)))"

definition io_Discard :: writer where
  "io_Discard = \<lparr>wbuf = [], wfail = None\<rparr>"

definition RunActivities ::
    "env \<Rightarrow> ctx \<Rightarrow> logger \<Rightarrow> string \<Rightarrow> string \<Rightarrow> string list \<Rightarrow> world \<Rightarrow> error option go \<times> world" where
  "RunActivities en c l directory fileExt arguments w =
     (case user_Current en of
        Inl e \<Rightarrow> (Return (Some (Errorf ''unable to get user information: %w'' [] e)), w)
      | Inr username \<Rightarrow>
          (case os_Args en of
             [] \<Rightarrow> (Panic, w)
           | arg0 # rest \<Rightarrow>
               (let log = Logger_WithFields l
                            (common_fields username arg0 (os_Args en) (os_Getpid en))
                in case process_stage en log arguments w of
                     (Some e, w1) \<Rightarrow> (Return (Some e), w1)
                   | (None, w1) \<Rightarrow>
                       (case file_stage en log directory fileExt w1 of
                          (Some e, w2) \<Rightarrow> (Return (Some e), w2)
                        | (None, w2) \<Rightarrow>
                            (case LocalhostTCPConnect en c log (strings_NewReader ''hello'')
                                    io_Discard w2 of
                               (res, w3) \<Rightarrow>
                                 (case tr_err res of
                                    Some e \<Rightarrow>
                                      (Return (Some (Errorf
                                         ''unable to transmit data over a network connection: %w'' [] e)), w3)
                                  | None \<Rightarrow> (Return None, w3)))))))"

section \<open>Observations and concrete environments\<close>

text \<open>
  The log calls of a trace, in order, and the test that an entry of a trace is a system
  call.
\<close>

fun log_of :: "action \<Rightarrow> (level \<times> string \<times> fields) option" where
  "log_of (LogEvent lv m d) = Some (lv, m, d)"
| "log_of _ = None"

definition logged :: "action list \<Rightarrow> (level \<times> string \<times> fields) list" where
  "logged tr = List.map_filter log_of tr"

fun is_sys :: "action \<Rightarrow> bool" where
  "is_sys (LogEvent lv m d) = False"
| "is_sys _ = True"

text \<open>
  The steps of the file lifecycle in a trace: a system call on the file is \<open>Inl\<close> of the
  step it performs, a log call is \<open>Inr\<close> of its "file activity" field.
\<close>

fun file_step :: "action \<Rightarrow> (string + fval) option" where
  "file_step (SysCreate p) = Some (Inl ''create'')"
| "file_step (SysWrite (FileHandle p) s) = Some (Inl ''modify'')"
| "file_step (SysRemove p) = Some (Inl ''delete'')"
| "file_step (LogEvent lv m d) = map_option Inr (d ''file activity'')"
| "file_step _ = None"

text \<open>The paths a trace creates files at.\<close>

fun created :: "action \<Rightarrow> string option" where
  "created (SysCreate p) = Some p"
| "created _ = None"

text \<open>The trace entry that \<open>errLog\<close> adds.\<close>

definition errEvent :: "entry \<Rightarrow> error option \<Rightarrow> string \<Rightarrow> action" where
  "errEvent l e msg =
     (case e of
        Some err \<Rightarrow> LogEvent ErrorLevel msg (entry_Data (WithError l err))
      | None \<Rightarrow> LogEvent InfoLevel msg (entry_Data l))"

text \<open>
  What the loopback transport may add to a trace: system calls on the listener and the
  client connection, and log calls whose data differs from the data of the entry it was
  given in the fields of the transmission and the error only.
\<close>

definition net_keys :: "string set" where
  "net_keys = {''destination address'', ''source address'', ''protocol'', ''data sent (bytes)'',
               ''error''}"

fun net_ok :: "fields \<Rightarrow> action \<Rightarrow> bool" where
  "net_ok base (LogEvent lv m d) = (\<forall>k. k \<notin> net_keys \<longrightarrow> d k = base k)"
| "net_ok base (SysCreate p) = False"
| "net_ok base (SysRemove p) = False"
| "net_ok base (SysWrite r s) = (r = ClientConn)"
| "net_ok base _ = True"



text \<open>
  An environment in which every call succeeds, an empty world, a context with a deadline
  and a logger, for the concrete runs below.
\<close>

definition env0 :: env where
  "env0 =
     \<lparr>user_Current = Inr ''alice'',
      os_Args = [''red'', ''-file-extension'', ''.txt''],
      os_Getpid = 4242,
      exec_behaviour = (\<lambda>p a. Exits 0),
      os_TempDir = ''/tmp'',
      filepath_Abs = (\<lambda>p. Inr p),
      filepath_Join = (\<lambda>d n. d @ ''/'' @ n),
      rand_source = 1000042,
      path_key = (\<lambda>p. p),
      create_fault = (\<lambda>p. None),
      setdeadline_fault = None,
      write_fault = None,
      close_fault = None,
      remove_fault = (\<lambda>p. None),
      listen_result = Inr ''127.0.0.1:40000'',
      listener_deadline_fault = None,
      accept_fault = None,
      srv_deadline_fault = None,
      srv_read_fault = None,
      srv_segments = [2],
      dial_result = (\<lambda>a. Inr (''127.0.0.1:50000'', a)),
      cli_write_fault = None,
      cli_close_fault = None,
      listener_close_fault = None\<rparr>"

definition world0 :: world where
  "world0 = \<lparr>files = Map.empty, trace = []\<rparr>"

definition ctx0 :: ctx where
  "ctx0 = \<lparr>deadline = Some 5\<rparr>"

definition logger0 :: logger where
  "logger0 = \<lparr>logger_Formatter = JSONFormatter ''RFC3339Nano'' ''timestamp''\<rparr>"

definition log0 :: entry where
  "log0 = Logger_WithFields logger0 (common_fields ''alice'' ''red'' [''red''] 4242)"

definition ag0 :: ActivityGenerator where
  "ag0 = \<lparr>ag_Log = log0\<rparr>"

definition sink0 :: writer where
  "sink0 = \<lparr>wbuf = [], wfail = None\<rparr>"

text \<open>
  An environment in which the client connection fails after two bytes and the listener's
  accept fails too.
\<close>

definition env_both_fail :: env where
  "env_both_fail =
     env0\<lparr>cli_write_fault := Some (2, Errno EIO), accept_fault := Some ErrDeadlineExceeded\<rparr>"

text \<open>
  Environments in which the write to the file fails after four bytes and the removal is
  denied, and in which only the removal is denied; and the generator that
  \<open>NewActivityGenerator\<close> builds in \<open>env0\<close>.
\<close>

definition env_write_remove_fail :: env where
  "env_write_remove_fail =
     env0\<lparr>write_fault := Some (4, Errno EIO), remove_fault := (\<lambda>p. Some EACCES)\<rparr>"

definition env_remove_fail :: env where
  "env_remove_fail = env0\<lparr>remove_fault := (\<lambda>p. Some EACCES)\<rparr>"


text \<open>
  A world in which \<^verbatim>\<open>/etc/passwd\<close> is a file, and an environment that answers
  \<open>ENOTDIR\<close> to the removal of a path below it; an environment whose working directory
  cannot be read, so that no relative path resolves; and an environment in which the
  creation of the file is denied.
\<close>

definition world_passwd :: world where
  "world_passwd = \<lparr>files = [''/etc/passwd'' \<mapsto> ''root:x:0:0:root:/root:/bin/sh''], trace = []\<rparr>"

definition env_notdir :: env where
  "env_notdir =
     env0\<lparr>remove_fault := (\<lambda>p. if p = ''/etc/passwd/x'' then Some ENOTDIR else None)\<rparr>"

definition env_no_cwd :: env where
  "env_no_cwd =
     env0\<lparr>filepath_Abs :=
            (\<lambda>p. case p of
                   [] \<Rightarrow> Inl (Errno EACCES)
                 | ch # cs \<Rightarrow> if ch = CHR ''/'' then Inr p else Inl (Errno EACCES))\<rparr>"

definition env_create_fail :: env where
  "env_create_fail = env0\<lparr>create_fault := (\<lambda>p. Some EACCES)\<rparr>"

section \<open>Properties\<close>

subsection \<open>Auxiliary facts\<close>

lemmas run_defs = emit_def errLog_def Entry_Error_def Entry_Info_def WithError_def
  WithField_def WithFields_def

lemma logged_append: "logged (xs @ ys) = logged xs @ logged ys"
  by (simp add: logged_def List.map_filter_def)

lemma logged_simps:
  "logged [] = []"
  "logged (LogEvent lv m d # xs) = (lv, m, d) # logged xs"
  "\<And>p a. logged (SysStart p a # xs) = logged xs"
  "logged (SysWait # xs) = logged xs"
  "\<And>p. logged (SysCreate p # xs) = logged xs"
  "\<And>r s. logged (SysWrite r s # xs) = logged xs"
  "\<And>r. logged (SysClose r # xs) = logged xs"
  "\<And>p. logged (SysRemove p # xs) = logged xs"
  "logged (SysListen # xs) = logged xs"
  "\<And>r. logged (SysSetDeadline r # xs) = logged xs"
  "logged (SysAccept # xs) = logged xs"
  "\<And>p. logged (SysDial p # xs) = logged xs"
  by (simp_all add: logged_def List.map_filter_def)

lemma errLog_emit: "errLog l e msg w = emit (errEvent l e msg) w"
  by (simp add: errLog_def errEvent_def Entry_Error_def Entry_Info_def split: option.splits)

lemma trace_emit [simp]: "trace (emit a w) = trace w @ [a]"
  by (simp add: emit_def)

lemma files_emit [simp]: "files (emit a w) = files w"
  by (simp add: emit_def)

lemma map_filter_append: "List.map_filter f (xs @ ys) = List.map_filter f xs @ List.map_filter f ys"
  by (simp add: List.map_filter_def)

lemma map_filter_Cons:
  "List.map_filter f (x # xs) =
     (case f x of None \<Rightarrow> List.map_filter f xs | Some y \<Rightarrow> y # List.map_filter f xs)"
  by (simp add: List.map_filter_def split: option.splits)

lemma map_filter_Nil: "List.map_filter f [] = []"
  by (simp add: List.map_filter_def)

lemma map_filter_all_None: "\<forall>a\<in>set ys. f a = None \<Longrightarrow> List.map_filter f ys = []"
  by (induction ys) (simp_all add: map_filter_Nil map_filter_Cons)

lemma Itoa_42: "Itoa 42 = ''42''"
  by (simp add: Itoa_def utoa.simps)

text \<open>A writer without a fault accepts everything: the copy writes the whole input.\<close>

lemma copy_loop_no_fault:
  "wfail wr = None \<Longrightarrow>
   copy_loop wr ps er n = (n + length (concat ps), er, wr\<lparr>wbuf := wbuf wr @ concat ps\<rparr>)"
  by (induction ps arbitrary: wr n) (simp_all add: writer_Write_def)

lemma io_Copy_no_fault:
  "wfail dst = None \<Longrightarrow>
   io_Copy dst src =
     (length (concat (chunks src)), rerr src, dst\<lparr>wbuf := wbuf dst @ concat (chunks src)\<rparr>)"
  by (simp add: io_Copy_def copy_loop_no_fault)

text \<open>However the stream is cut into segments, the segments are the stream.\<close>

lemma concat_segments: "concat (segments ns s) = s"
  by (induction ns arbitrary: s) simp_all

subsection \<open>The process driver\<close>

text \<open>
  C1 (as the code has it): \<open>RunProcess\<close> returns success exactly when the process starts
  and exits with status zero. A process that starts and exits with a non-zero status
  makes \<open>RunProcess\<close> return the wait's exit error wrapped as "error running command";
  a process that cannot start makes it return the start error wrapped as "error starting
  command"; a failing wait is returned wrapped as "error running command".
\<close>

theorem RunProcess_result:
  "fst (RunProcess en ag c path args w) =
     (case exec_behaviour en path args of
        StartFails e \<Rightarrow> Some (Errorf ''error starting command: %w'' [] e)
      | Exits n \<Rightarrow>
          (if n = 0 then None else Some (Errorf ''error running command: %w'' [] (ExitError n)))
      | WaitFails e \<Rightarrow> Some (Errorf ''error running command: %w'' [] e))"
  by (simp add: RunProcess_def cmd_Start_def cmd_Wait_def Let_def split: proc_behaviour.splits)

text \<open>
  Counterexample to C1 as stated: a process that starts and exits with status 1 (the
  program \<^verbatim>\<open>false\<close>) makes \<open>RunProcess\<close> return an error.
\<close>

theorem RunProcess_nonzero_exit_counterexample:
  "exec_behaviour (env0\<lparr>exec_behaviour := (\<lambda>p a. Exits 1)\<rparr>) ''false'' [] = Exits 1 \<and>
   cmd_Start (exec_behaviour (env0\<lparr>exec_behaviour := (\<lambda>p a. Exits 1)\<rparr>) ''false'' []) = None \<and>
   fst (RunProcess (env0\<lparr>exec_behaviour := (\<lambda>p a. Exits 1)\<rparr>) ag0 ctx0 ''false'' [] world0) =
     Some (Errorf ''error running command: %w'' [] (ExitError 1))"
  by (simp add: RunProcess_def cmd_Start_def cmd_Wait_def env0_def Let_def)

subsection \<open>The traces of the stages\<close>

text \<open>
  The closure that modifies and cleans up, on a file that exists: its result and the
  entries it adds to the trace, for whatever the write, the close and the removal answer.
\<close>

lemma modify_and_cleanup_eq:
  assumes nm: "file_Name f = name"
    and ex: "files v (path_key en name) = Some s"
    and W: "writer_Write \<lparr>wbuf = s, wfail = write_fault en\<rparr> ''file append'' = (n, werr, wr)"
  shows "fst (modify_and_cleanup en log fLog f v) =
     (case werr of
        Some x \<Rightarrow> Some (Errorf ''unable to write to string: %w'' [] x)
      | None \<Rightarrow>
          (case remove_fault en name of
             Some k \<Rightarrow> Some (Errorf ''unable to delete file: %w'' [] (PathError ''remove'' name (Errno k)))
           | None \<Rightarrow> None))"
    and "trace (snd (modify_and_cleanup en log fLog f v)) =
     trace v @
     [SysWrite (FileHandle name) (drop (length s) (wbuf wr)),
      errEvent (WithField fLog ''file activity'' (FStr ''modify'')) werr ''modify file'',
      SysClose (FileHandle name)] @
     (case close_fault en of
        Some x \<Rightarrow> [LogEvent ErrorLevel ''close file'' (entry_Data (WithError log x))]
      | None \<Rightarrow> []) @
     [SysRemove name,
      errEvent (WithField fLog ''file activity'' (FStr ''delete''))
        (map_option (\<lambda>k. PathError ''remove'' name (Errno k)) (remove_fault en name))
        ''delete file'']"
  using ex W unfolding nm [symmetric]
  by (cases "close_fault en"; cases "remove_fault en (file_Name f)"; cases werr;
      simp add: modify_and_cleanup_def file_WriteString_def file_writer_def file_store_def
        file_Close_def os_Remove_def errLog_emit Entry_Error_def Let_def)+

text \<open>The three ways the file stage can go.\<close>

lemma file_stage_abs_fail:
  assumes "filepath_Abs en (if directory = [] then os_TempDir en else directory) = Inl e"
  shows "file_stage en log directory fileExt w =
           (Some (Errorf ''unable to get absolute path for directory: %w'' [] e), w)"
  using assms by (simp add: file_stage_def Let_def)

lemma file_stage_create_fail:
  assumes abs: "filepath_Abs en (if directory = [] then os_TempDir en else directory) = Inr absDir"
    and path: "path = filepath_Join en absDir (Itoa (rand_Intn en 1000000) @ fileExt)"
    and fLog: "fLog = WithFields log [(''file path'', FStr path), (''file activity'', FStr ''create'')]"
    and create: "create_fault en path = Some k"
  shows "fst (file_stage en log directory fileExt w) =
           Some (Errorf ''unable to create file: %w'' [] (PathError ''open'' path (Errno k)))"
    and "trace (snd (file_stage en log directory fileExt w)) =
           trace w @ [SysCreate path,
                      errEvent fLog (Some (PathError ''open'' path (Errno k))) ''create file'']"
  using abs create unfolding path fLog
  by (simp_all add: file_stage_def os_Create_def Let_def errLog_emit)

lemma file_stage_create_ok:
  assumes abs: "filepath_Abs en (if directory = [] then os_TempDir en else directory) = Inr absDir"
    and path: "path = filepath_Join en absDir (Itoa (rand_Intn en 1000000) @ fileExt)"
    and fLog: "fLog = WithFields log [(''file path'', FStr path), (''file activity'', FStr ''create'')]"
    and create: "create_fault en path = None"
    and W: "writer_Write \<lparr>wbuf = [], wfail = write_fault en\<rparr> ''file append'' = (n, werr, wr)"
  shows "fst (file_stage en log directory fileExt w) =
     (case werr of
        Some x \<Rightarrow> Some (Errorf ''unable to write to string: %w'' [] x)
      | None \<Rightarrow>
          (case remove_fault en path of
             Some k \<Rightarrow> Some (Errorf ''unable to delete file: %w'' [] (PathError ''remove'' path (Errno k)))
           | None \<Rightarrow> None))"
    and "trace (snd (file_stage en log directory fileExt w)) =
     trace w @
     [SysCreate path, errEvent fLog None ''create file'',
      SysWrite (FileHandle path) (wbuf wr),
      errEvent (WithField fLog ''file activity'' (FStr ''modify'')) werr ''modify file'',
      SysClose (FileHandle path)] @
     (case close_fault en of
        Some x \<Rightarrow> [LogEvent ErrorLevel ''close file'' (entry_Data (WithError log x))]
      | None \<Rightarrow> []) @
     [SysRemove path,
      errEvent (WithField fLog ''file activity'' (FStr ''delete''))
        (map_option (\<lambda>k. PathError ''remove'' path (Errno k)) (remove_fault en path))
        ''delete file'']"
proof -
  let ?f = "\<lparr>file_Name = path\<rparr>"
  let ?v = "errLog fLog None ''create file''
              ((emit (SysCreate path) w)\<lparr>files := (files w)(path_key en path \<mapsto> [])\<rparr>)"
  have fs: "file_stage en log directory fileExt w = modify_and_cleanup en log fLog ?f ?v"
    using abs create unfolding path fLog
    by (simp add: file_stage_def os_Create_def Let_def)
  have nm: "file_Name ?f = path"
    by simp
  have ex: "files ?v (path_key en path) = Some []"
    by (simp add: errLog_emit)
  have W': "writer_Write \<lparr>wbuf = [], wfail = write_fault en\<rparr> ''file append'' = (n, werr, wr)"
    by (rule W)
  show "fst (file_stage en log directory fileExt w) =
     (case werr of
        Some x \<Rightarrow> Some (Errorf ''unable to write to string: %w'' [] x)
      | None \<Rightarrow>
          (case remove_fault en path of
             Some k \<Rightarrow> Some (Errorf ''unable to delete file: %w'' [] (PathError ''remove'' path (Errno k)))
           | None \<Rightarrow> None))"
    using modify_and_cleanup_eq(1) [OF nm ex W', of log fLog] by (simp add: fs)
  show "trace (snd (file_stage en log directory fileExt w)) =
     trace w @
     [SysCreate path, errEvent fLog None ''create file'',
      SysWrite (FileHandle path) (wbuf wr),
      errEvent (WithField fLog ''file activity'' (FStr ''modify'')) werr ''modify file'',
      SysClose (FileHandle path)] @
     (case close_fault en of
        Some x \<Rightarrow> [LogEvent ErrorLevel ''close file'' (entry_Data (WithError log x))]
      | None \<Rightarrow> []) @
     [SysRemove path,
      errEvent (WithField fLog ''file activity'' (FStr ''delete''))
        (map_option (\<lambda>k. PathError ''remove'' path (Errno k)) (remove_fault en path))
        ''delete file'']"
    using modify_and_cleanup_eq(2) [OF nm ex W', of log fLog] by (simp add: fs errLog_emit)
qed

lemma process_stage_ok:
  assumes "exec_behaviour en ''echo'' arguments = Exits 0"
  shows "process_stage en log arguments w =
           (None, emit SysWait (emit (errEvent log None ''process start'')
                                  (emit (SysStart ''echo'' arguments) w)))"
  using assms by (simp add: process_stage_def cmd_Start_def cmd_Wait_def Let_def errLog_emit)

text \<open>
  The loopback transport only appends to the trace, and what it appends touches no file
  and changes no field of the entry besides those of the transmission.
\<close>

lemma LocalhostTCPConnect_trace:
  "\<exists>ys. trace (snd (LocalhostTCPConnect en c log rd snk w)) = trace w @ ys \<and>
        list_all (net_ok (entry_Data log)) ys"
proof -
  obtain sent err conn where cp: "io_Copy (client_conn en) rd = (sent, err, conn)"
    by (cases "io_Copy (client_conn en) rd") auto
  show ?thesis
    using cp
    by (auto simp add: LocalhostTCPConnect_def transmit_def Let_def errLog_emit errEvent_def
        Entry_Error_def WithError_def WithField_def WithFields_def net_keys_def map_add_def
        split: sum.splits option.splits)
qed

lemma net_ok_file_step: "net_ok base a \<Longrightarrow> base ''file activity'' = None \<Longrightarrow> file_step a = None"
  by (cases a) (auto simp add: net_keys_def)

lemma net_ok_created: "net_ok base a \<Longrightarrow> created a = None"
  by (cases a) auto

lemma net_file_steps:
  assumes "entry_Data log ''file activity'' = None"
  shows "List.map_filter file_step (trace (snd (LocalhostTCPConnect en c log rd snk w))) =
         List.map_filter file_step (trace w)"
proof -
  obtain ys where ys: "trace (snd (LocalhostTCPConnect en c log rd snk w)) = trace w @ ys"
      "list_all (net_ok (entry_Data log)) ys"
    using LocalhostTCPConnect_trace by blast
  have "\<forall>a\<in>set ys. file_step a = None"
    using ys(2) assms by (auto simp add: list_all_iff intro: net_ok_file_step)
  then show ?thesis
    by (simp add: ys(1) map_filter_append map_filter_all_None)
qed

lemma net_created:
  "List.map_filter created (trace (snd (LocalhostTCPConnect en c log rd snk w))) =
   List.map_filter created (trace w)"
proof -
  obtain ys where ys: "trace (snd (LocalhostTCPConnect en c log rd snk w)) = trace w @ ys"
      "list_all (net_ok (entry_Data log)) ys"
    using LocalhostTCPConnect_trace by blast
  have "\<forall>a\<in>set ys. created a = None"
    using ys(2) by (auto simp add: list_all_iff intro: net_ok_created)
  then show ?thesis
    by (simp add: ys(1) map_filter_append map_filter_all_None)
qed

lemma common_no_file_activity:
  "entry_Data (Logger_WithFields l (common_fields u a0 args pid)) ''file activity'' = None"
  by (simp add: Logger_WithFields_def WithFields_def common_fields_def)

lemma errEvent_file_step:
  "file_step (errEvent l e msg) =
     map_option Inr (entry_Data l ''file activity'')"
  by (cases e) (simp_all add: errEvent_def WithError_def WithField_def WithFields_def)

lemma process_file_steps:
  assumes "entry_Data log ''file activity'' = None"
  shows "List.map_filter file_step (trace (snd (process_stage en log arguments w))) =
         List.map_filter file_step (trace w)"
  using assms
  by (auto simp add: process_stage_def cmd_Start_def cmd_Wait_def Let_def errLog_emit
      map_filter_append map_filter_Cons map_filter_Nil errEvent_file_step
      split: proc_behaviour.splits)

lemma process_stage_fail:
  assumes "exec_behaviour en ''echo'' arguments \<noteq> Exits 0"
  shows "fst (process_stage en log arguments w) \<noteq> None"
  using assms
  by (cases "exec_behaviour en ''echo'' arguments")
     (simp_all add: process_stage_def cmd_Start_def cmd_Wait_def Let_def)

lemma RunActivities_after_process:
  assumes user: "user_Current en = Inr u"
    and args: "os_Args en = a0 # rest"
    and pr: "exec_behaviour en ''echo'' arguments = Exits 0"
    and log: "log = Logger_WithFields l (common_fields u a0 (os_Args en) (os_Getpid en))"
    and w1: "w1 = emit SysWait (emit (errEvent log None ''process start'')
                                 (emit (SysStart ''echo'' arguments) w))"
    and f: "file_stage en log directory fileExt w1 = (r2, w2)"
    and n: "LocalhostTCPConnect en c log (strings_NewReader ''hello'') io_Discard w2 = (r3, w3)"
  shows "RunActivities en c l directory fileExt arguments w =
     (case r2 of
        Some e \<Rightarrow> (Return (Some e), w2)
      | None \<Rightarrow>
          (case tr_err r3 of
             Some e \<Rightarrow> (Return (Some (Errorf
                 ''unable to transmit data over a network connection: %w'' [] e)), w3)
           | None \<Rightarrow> (Return None, w3)))"
  using user args f n process_stage_ok [OF pr, of log w] unfolding log w1
  by (simp add: RunActivities_def split: option.splits)

subsection \<open>The composite file operation\<close>

text \<open>
  C5: in a run of \<open>RunActivities\<close> that reaches the file stage and creates the file,
  whatever the write answers, the system calls are the start and the wait of the process,
  the creation, the write, then the close and the removal of the file (and then those of
  the network stage, if it is reached). If the write fails, its error is the one
  returned, wrapped as "unable to write to string", whether or not the removal fails too;
  if the write succeeds and the removal fails, the removal's error is returned, wrapped
  as "unable to delete file".
\<close>

theorem RunActivities_file_cleanup:
  assumes user: "user_Current en = Inr u"
    and args: "os_Args en = a0 # rest"
    and pr: "exec_behaviour en ''echo'' arguments = Exits 0"
    and abs: "filepath_Abs en (if directory = [] then os_TempDir en else directory) = Inr absDir"
    and path: "path = filepath_Join en absDir (Itoa (rand_Intn en 1000000) @ fileExt)"
    and create: "create_fault en path = None"
    and W: "writer_Write \<lparr>wbuf = [], wfail = write_fault en\<rparr> ''file append'' = (n, werr, wr)"
  shows "(\<exists>tl. filter is_sys (trace (snd (RunActivities en c l directory fileExt arguments w))) =
            filter is_sys (trace w) @
            [SysStart ''echo'' arguments, SysWait, SysCreate path,
             SysWrite (FileHandle path) (wbuf wr), SysClose (FileHandle path), SysRemove path] @ tl) \<and>
         (\<forall>x. werr = Some x \<longrightarrow>
            fst (RunActivities en c l directory fileExt arguments w) =
              Return (Some (Errorf ''unable to write to string: %w'' [] x))) \<and>
         (\<forall>k. werr = None \<and> remove_fault en path = Some k \<longrightarrow>
            fst (RunActivities en c l directory fileExt arguments w) =
              Return (Some (Errorf ''unable to delete file: %w'' []
                (PathError ''remove'' path (Errno k)))))"
proof -
  define log where "log = Logger_WithFields l (common_fields u a0 (os_Args en) (os_Getpid en))"
  define w1 where "w1 = emit SysWait (emit (errEvent log None ''process start'')
                                 (emit (SysStart ''echo'' arguments) w))"
  define fLog where
    "fLog = WithFields log [(''file path'', FStr path), (''file activity'', FStr ''create'')]"
  obtain r2 w2 where f: "file_stage en log directory fileExt w1 = (r2, w2)"
    by (cases "file_stage en log directory fileExt w1") auto
  obtain r3 w3 where n:
    "LocalhostTCPConnect en c log (strings_NewReader ''hello'') io_Discard w2 = (r3, w3)"
    by (cases "LocalhostTCPConnect en c log (strings_NewReader ''hello'') io_Discard w2") auto
  note ra = RunActivities_after_process [OF user args pr log_def w1_def f n]
  have r2: "r2 =
     (case werr of
        Some x \<Rightarrow> Some (Errorf ''unable to write to string: %w'' [] x)
      | None \<Rightarrow>
          (case remove_fault en path of
             Some k \<Rightarrow> Some (Errorf ''unable to delete file: %w'' [] (PathError ''remove'' path (Errno k)))
           | None \<Rightarrow> None))"
    using file_stage_create_ok(1) [OF abs path fLog_def create W, of w1] by (simp add: f)
  have sys_ev: "\<And>l e m. is_sys (errEvent l e m) = False"
    by (simp add: errEvent_def split: option.splits)
  have t2: "filter is_sys (trace w2) =
     filter is_sys (trace w) @
       [SysStart ''echo'' arguments, SysWait, SysCreate path,
        SysWrite (FileHandle path) (wbuf wr), SysClose (FileHandle path), SysRemove path]"
  proof -
    have "filter is_sys (trace w2) = filter is_sys (trace w1) @
       [SysCreate path, SysWrite (FileHandle path) (wbuf wr), SysClose (FileHandle path),
        SysRemove path]"
      using file_stage_create_ok(2) [OF abs path fLog_def create W, of w1]
      by (cases "close_fault en") (simp_all add: f sys_ev)
    then show ?thesis
      by (simp add: w1_def sys_ev)
  qed
  obtain ys where ys: "trace w3 = trace w2 @ ys"
    using LocalhostTCPConnect_trace [of en c log "strings_NewReader ''hello''" io_Discard w2]
    by (auto simp add: n)
  have "snd (RunActivities en c l directory fileExt arguments w) = w2 \<or>
        snd (RunActivities en c l directory fileExt arguments w) = w3"
    by (simp add: ra split: option.splits)
  then have A: "\<exists>tl. filter is_sys (trace (snd (RunActivities en c l directory fileExt arguments w))) =
            filter is_sys (trace w) @
            [SysStart ''echo'' arguments, SysWait, SysCreate path,
             SysWrite (FileHandle path) (wbuf wr), SysClose (FileHandle path), SysRemove path] @ tl"
    using t2 ys by auto
  have B: "\<forall>x. werr = Some x \<longrightarrow>
            fst (RunActivities en c l directory fileExt arguments w) =
              Return (Some (Errorf ''unable to write to string: %w'' [] x))"
    by (simp add: ra r2)
  have C: "\<forall>k. werr = None \<and> remove_fault en path = Some k \<longrightarrow>
            fst (RunActivities en c l directory fileExt arguments w) =
              Return (Some (Errorf ''unable to delete file: %w'' []
                (PathError ''remove'' path (Errno k))))"
    by (simp add: ra r2)
  from A B C show ?thesis by blast
qed

theorem RunActivities_file_cleanup_witness:
  "fst (RunActivities env_write_remove_fail ctx0 logger0 [] ''.txt'' [] world0) =
     Return (Some (Errorf ''unable to write to string: %w'' [] (Errno EIO))) \<and>
   (\<exists>tl. filter is_sys (trace (snd (RunActivities env_write_remove_fail ctx0 logger0 [] ''.txt'' []
              world0))) =
      [SysStart ''echo'' [], SysWait, SysCreate ''/tmp/42.txt'',
       SysWrite (FileHandle ''/tmp/42.txt'') ''file'', SysClose (FileHandle ''/tmp/42.txt''),
       SysRemove ''/tmp/42.txt''] @ tl) \<and>
   fst (RunActivities env_remove_fail ctx0 logger0 [] ''.txt'' [] world0) =
     Return (Some (Errorf ''unable to delete file: %w'' []
       (PathError ''remove'' ''/tmp/42.txt'' (Errno EACCES))))"
proof -
  have p: "filepath_Join env0 ''/tmp'' (Itoa (rand_Intn env0 1000000) @ ''.txt'') = ''/tmp/42.txt''"
    by (simp add: env0_def rand_Intn_def Itoa_42)
  have 1: "user_Current env_write_remove_fail = Inr ''alice''"
    and 2: "os_Args env_write_remove_fail = ''red'' # [''-file-extension'', ''.txt'']"
    and 3: "exec_behaviour env_write_remove_fail ''echo'' [] = Exits 0"
    and 4: "filepath_Abs env_write_remove_fail (if [] = [] then os_TempDir env_write_remove_fail else [])
              = Inr ''/tmp''"
    and 5: "''/tmp/42.txt'' = filepath_Join env_write_remove_fail ''/tmp''
              (Itoa (rand_Intn env_write_remove_fail 1000000) @ ''.txt'')"
    and 6: "create_fault env_write_remove_fail ''/tmp/42.txt'' = None"
    and 7: "writer_Write \<lparr>wbuf = [], wfail = write_fault env_write_remove_fail\<rparr> ''file append'' =
              (4, Some (Errno EIO), \<lparr>wbuf = ''file'', wfail = Some (0, Errno EIO)\<rparr>)"
    using p by (simp_all add: env_write_remove_fail_def env0_def rand_Intn_def writer_Write_def)
  have b1: "user_Current env_remove_fail = Inr ''alice''"
    and b2: "os_Args env_remove_fail = ''red'' # [''-file-extension'', ''.txt'']"
    and b3: "exec_behaviour env_remove_fail ''echo'' [] = Exits 0"
    and b4: "filepath_Abs env_remove_fail (if [] = [] then os_TempDir env_remove_fail else [])
              = Inr ''/tmp''"
    and b5: "''/tmp/42.txt'' = filepath_Join env_remove_fail ''/tmp''
              (Itoa (rand_Intn env_remove_fail 1000000) @ ''.txt'')"
    and b6: "create_fault env_remove_fail ''/tmp/42.txt'' = None"
    and b7: "writer_Write \<lparr>wbuf = [], wfail = write_fault env_remove_fail\<rparr> ''file append'' =
              (11, None, \<lparr>wbuf = ''file append'', wfail = None\<rparr>)"
    and b8: "remove_fault env_remove_fail ''/tmp/42.txt'' = Some EACCES"
    using p by (simp_all add: env_remove_fail_def env0_def rand_Intn_def writer_Write_def)
  show ?thesis
    using RunActivities_file_cleanup [OF 1 2 3 4 5 6 7, of ctx0 logger0 world0]
      RunActivities_file_cleanup [OF b1 b2 b3 b4 b5 b6 b7, of ctx0 logger0 world0] b8
    by (simp add: world0_def)
qed

text \<open>
  C8: in every run of \<open>RunActivities\<close>, the steps of the file lifecycle that the run adds
  to the trace are decided by the run. When the run reaches the file stage (the user is
  resolved, the argument vector is not empty, \<^verbatim>\<open>echo\<close> exits with status zero), the
  directory resolves and the file is created, they are exactly, in this order: the
  creation, the "create" event, the write, the "modify" event, the removal, the "delete"
  event. Each event follows its system call, and create precedes modify, which precedes
  delete, whatever the write, the close and the removal answer. When the creation fails
  they are the creation and its "create" event; when the stage is not reached or the
  directory does not resolve there is none.
\<close>

theorem RunActivities_file_event_order:
  "List.map_filter file_step (trace (snd (RunActivities en c l directory fileExt arguments w))) =
   List.map_filter file_step (trace w) @
   (case user_Current en of
      Inl e \<Rightarrow> []
    | Inr u \<Rightarrow>
        (case os_Args en of
           [] \<Rightarrow> []
         | a0 # rest \<Rightarrow>
             (if exec_behaviour en ''echo'' arguments = Exits 0
              then (case filepath_Abs en (if directory = [] then os_TempDir en else directory) of
                      Inl e \<Rightarrow> []
                    | Inr absDir \<Rightarrow>
                        (case create_fault en
                                (filepath_Join en absDir (Itoa (rand_Intn en 1000000) @ fileExt)) of
                           Some k \<Rightarrow> [Inl ''create'', Inr (FStr ''create'')]
                         | None \<Rightarrow>
                             [Inl ''create'', Inr (FStr ''create''),
                              Inl ''modify'', Inr (FStr ''modify''),
                              Inl ''delete'', Inr (FStr ''delete'')]))
              else [])))"
proof (cases "user_Current en")
  case (Inl e)
  then show ?thesis by (simp add: RunActivities_def)
next
  case (Inr u)
  show ?thesis
  proof (cases "os_Args en")
    case Nil
    with Inr show ?thesis by (simp add: RunActivities_def)
  next
    case (Cons a0 rest)
    define log where "log = Logger_WithFields l (common_fields u a0 (os_Args en) (os_Getpid en))"
    have nofa: "entry_Data log ''file activity'' = None"
      by (simp add: log_def common_no_file_activity)
    obtain r1 w1 where p: "process_stage en log arguments w = (r1, w1)"
      by (cases "process_stage en log arguments w") auto
    have t1: "List.map_filter file_step (trace w1) = List.map_filter file_step (trace w)"
      using process_file_steps [OF nofa, of en arguments w] by (simp add: p)
    show ?thesis
    proof (cases "exec_behaviour en ''echo'' arguments = Exits 0")
      case False
      have "r1 \<noteq> None"
        using process_stage_fail [OF False, of log w] by (simp add: p)
      then have "snd (RunActivities en c l directory fileExt arguments w) = w1"
        using Inr Cons p unfolding log_def
        by (auto simp add: RunActivities_def Let_def)
      then show ?thesis
        using t1 Inr Cons False by simp
    next
      case True
      have w1: "w1 = emit SysWait (emit (errEvent log None ''process start'')
                                 (emit (SysStart ''echo'' arguments) w))"
        using process_stage_ok [OF True, of log w] by (simp add: p)
      obtain r2 w2 where f: "file_stage en log directory fileExt w1 = (r2, w2)"
        by (cases "file_stage en log directory fileExt w1") auto
      obtain r3 w3 where n:
        "LocalhostTCPConnect en c log (strings_NewReader ''hello'') io_Discard w2 = (r3, w3)"
        by (cases "LocalhostTCPConnect en c log (strings_NewReader ''hello'') io_Discard w2") auto
      note ra = RunActivities_after_process [OF Inr Cons True log_def w1 f n]
      have t3: "List.map_filter file_step (trace w3) = List.map_filter file_step (trace w2)"
        using net_file_steps [OF nofa, of en c "strings_NewReader ''hello''" io_Discard w2]
        by (simp add: n)
      show ?thesis
      proof (cases "filepath_Abs en (if directory = [] then os_TempDir en else directory)")
        case (Inl e)
        have "r2 \<noteq> None" and "w2 = w1"
          using file_stage_abs_fail [OF Inl, of log fileExt w1] by (simp_all add: f)
        then have "snd (RunActivities en c l directory fileExt arguments w) = w1"
          by (auto simp add: ra)
        then show ?thesis
          using t1 Inr Cons True Inl by simp
      next
        case abs: (Inr absDir)
        define path where "path = filepath_Join en absDir (Itoa (rand_Intn en 1000000) @ fileExt)"
        define fLog where
          "fLog = WithFields log [(''file path'', FStr path), (''file activity'', FStr ''create'')]"
        have fa: "entry_Data fLog ''file activity'' = Some (FStr ''create'')"
          by (simp add: fLog_def WithFields_def)
        have fm: "entry_Data (WithField fLog ''file activity'' (FStr ''modify'')) ''file activity'' =
            Some (FStr ''modify'')"
          by (simp add: WithField_def WithFields_def)
        have fd: "entry_Data (WithField fLog ''file activity'' (FStr ''delete'')) ''file activity'' =
            Some (FStr ''delete'')"
          by (simp add: WithField_def WithFields_def)
        have cl: "\<And>x. entry_Data (WithError log x) ''file activity'' = None"
          using nofa by (simp add: WithError_def WithField_def WithFields_def)
        show ?thesis
        proof (cases "create_fault en path")
          case (Some k)
          have "r2 \<noteq> None"
            using file_stage_create_fail(1) [OF abs path_def fLog_def Some, of w1] by (simp add: f)
          then have s: "snd (RunActivities en c l directory fileExt arguments w) = w2"
            by (auto simp add: ra)
          have "List.map_filter file_step (trace w2) =
              List.map_filter file_step (trace w1) @ [Inl ''create'', Inr (FStr ''create'')]"
            using file_stage_create_fail(2) [OF abs path_def fLog_def Some, of w1] fa
            by (simp add: f map_filter_append map_filter_Cons map_filter_Nil errEvent_file_step)
          then show ?thesis
            using s t1 Inr Cons True abs Some by (simp add: path_def)
        next
          case None
          obtain m werr wr where W:
            "writer_Write \<lparr>wbuf = [], wfail = write_fault en\<rparr> ''file append'' = (m, werr, wr)"
            by (cases "writer_Write \<lparr>wbuf = [], wfail = write_fault en\<rparr> ''file append''") auto
          have s: "snd (RunActivities en c l directory fileExt arguments w) = w2 \<or>
                snd (RunActivities en c l directory fileExt arguments w) = w3"
            by (simp add: ra split: option.splits)
          have "List.map_filter file_step (trace w2) =
              List.map_filter file_step (trace w1) @
                [Inl ''create'', Inr (FStr ''create''), Inl ''modify'', Inr (FStr ''modify''),
                 Inl ''delete'', Inr (FStr ''delete'')]"
            using file_stage_create_ok(2) [OF abs path_def fLog_def None W, of w1] fa fm fd cl
            by (cases "close_fault en")
               (simp_all add: f map_filter_append map_filter_Cons map_filter_Nil
                  errEvent_file_step)
          then show ?thesis
            using s t1 t3 Inr Cons True abs None by (auto simp add: path_def)
        qed
      qed
    qed
  qed
qed

theorem RunActivities_file_event_order_witness:
  "List.map_filter file_step
     (trace (snd (RunActivities env0 ctx0 logger0 [] ''.txt'' [] world0))) =
     [Inl ''create'', Inr (FStr ''create''), Inl ''modify'', Inr (FStr ''modify''),
      Inl ''delete'', Inr (FStr ''delete'')] \<and>
   List.map_filter file_step
     (trace (snd (RunActivities env_write_remove_fail ctx0 logger0 [] ''.txt'' [] world0))) =
     [Inl ''create'', Inr (FStr ''create''), Inl ''modify'', Inr (FStr ''modify''),
      Inl ''delete'', Inr (FStr ''delete'')] \<and>
   List.map_filter file_step
     (trace (snd (RunActivities env_create_fail ctx0 logger0 [] ''.txt'' [] world0))) =
     [Inl ''create'', Inr (FStr ''create'')]"
  using RunActivities_file_event_order [of env0 ctx0 logger0 "[]" "''.txt''" "[]" world0]
    RunActivities_file_event_order [of env_write_remove_fail ctx0 logger0 "[]" "''.txt''" "[]" world0]
    RunActivities_file_event_order [of env_create_fail ctx0 logger0 "[]" "''.txt''" "[]" world0]
  by (simp add: env0_def env_write_remove_fail_def env_create_fail_def world0_def map_filter_Nil)

text \<open>
  C9: in a run of \<open>RunActivities\<close> that reaches the file stage, the one path at which a
  file is created is the absolute form of the directory (of the temporary directory of
  the operating system when the configured directory is the empty string) joined with
  the generated name, which is the decimal form of a number below one million followed by
  the configured extension.
\<close>

theorem RunActivities_file_path:
  assumes user: "user_Current en = Inr u"
    and args: "os_Args en = a0 # rest"
    and pr: "exec_behaviour en ''echo'' arguments = Exits 0"
    and abs: "filepath_Abs en (if directory = [] then os_TempDir en else directory) = Inr absDir"
  shows "List.map_filter created (trace (snd (RunActivities en c l directory fileExt arguments w))) =
           List.map_filter created (trace w) @
           [filepath_Join en absDir (Itoa (rand_Intn en 1000000) @ fileExt)] \<and>
         0 \<le> rand_Intn en 1000000 \<and> rand_Intn en 1000000 < 1000000"
proof -
  define log where "log = Logger_WithFields l (common_fields u a0 (os_Args en) (os_Getpid en))"
  define w1 where "w1 = emit SysWait (emit (errEvent log None ''process start'')
                                 (emit (SysStart ''echo'' arguments) w))"
  define path where "path = filepath_Join en absDir (Itoa (rand_Intn en 1000000) @ fileExt)"
  define fLog where
    "fLog = WithFields log [(''file path'', FStr path), (''file activity'', FStr ''create'')]"
  obtain r2 w2 where f: "file_stage en log directory fileExt w1 = (r2, w2)"
    by (cases "file_stage en log directory fileExt w1") auto
  obtain r3 w3 where n:
    "LocalhostTCPConnect en c log (strings_NewReader ''hello'') io_Discard w2 = (r3, w3)"
    by (cases "LocalhostTCPConnect en c log (strings_NewReader ''hello'') io_Discard w2") auto
  note ra = RunActivities_after_process [OF user args pr log_def w1_def f n]
  have cr_ev: "\<And>l e m. created (errEvent l e m) = None"
    by (simp add: errEvent_def split: option.splits)
  have t1: "List.map_filter created (trace w1) = List.map_filter created (trace w)"
    by (simp add: w1_def map_filter_append map_filter_Cons map_filter_Nil cr_ev)
  have t2: "List.map_filter created (trace w2) = List.map_filter created (trace w1) @ [path]"
  proof (cases "create_fault en path")
    case (Some k)
    show ?thesis
      using file_stage_create_fail(2) [OF abs path_def fLog_def Some, of w1]
      by (simp add: f map_filter_append map_filter_Cons map_filter_Nil cr_ev)
  next
    case None
    obtain n werr wr where W:
      "writer_Write \<lparr>wbuf = [], wfail = write_fault en\<rparr> ''file append'' = (n, werr, wr)"
      by (cases "writer_Write \<lparr>wbuf = [], wfail = write_fault en\<rparr> ''file append''") auto
    show ?thesis
      using file_stage_create_ok(2) [OF abs path_def fLog_def None W, of w1]
      by (cases "close_fault en")
         (simp_all add: f map_filter_append map_filter_Cons map_filter_Nil cr_ev)
  qed
  have t3: "List.map_filter created (trace w3) = List.map_filter created (trace w2)"
    using net_created [of en c log "strings_NewReader ''hello''" io_Discard w2] by (simp add: n)
  have "snd (RunActivities en c l directory fileExt arguments w) = w2 \<or>
        snd (RunActivities en c l directory fileExt arguments w) = w3"
    by (simp add: ra split: option.splits)
  then show ?thesis
    using t1 t2 t3 by (auto simp add: path_def rand_Intn_def)
qed

theorem RunActivities_file_path_witness:
  "List.map_filter created (trace (snd (RunActivities env0 ctx0 logger0 [] ''.txt'' [] world0))) =
     [''/tmp/42.txt''] \<and>
   List.map_filter created (trace (snd (RunActivities env0 ctx0 logger0 ''/var/data'' ''.bin'' []
     world0))) = [''/var/data/42.bin'']"
proof -
  have 1: "user_Current env0 = Inr ''alice''"
    and 2: "os_Args env0 = ''red'' # [''-file-extension'', ''.txt'']"
    and 3: "exec_behaviour env0 ''echo'' [] = Exits 0"
    and 4: "filepath_Abs env0 (if [] = [] then os_TempDir env0 else []) = Inr ''/tmp''"
    and 5: "filepath_Abs env0 (if ''/var/data'' = [] then os_TempDir env0 else ''/var/data'') =
              Inr ''/var/data''"
    and 6: "filepath_Join env0 ''/tmp'' (Itoa (rand_Intn env0 1000000) @ ''.txt'') = ''/tmp/42.txt''"
    and 7: "filepath_Join env0 ''/var/data'' (Itoa (rand_Intn env0 1000000) @ ''.bin'') =
              ''/var/data/42.bin''"
    by (simp_all add: env0_def rand_Intn_def Itoa_42)
  show ?thesis
    using RunActivities_file_path [OF 1 2 3 4, of ctx0 logger0 "''.txt''" world0]
      RunActivities_file_path [OF 1 2 3 5, of ctx0 logger0 "''.bin''" world0] 6 7
    by (simp add: world0_def map_filter_Nil)
qed

subsection \<open>Deleting a file\<close>

text \<open>
  C6 (as the code has it): for every path whose file does not exist, \<open>DeleteFile\<close> fails.
  When the path does not resolve to an absolute path, it returns the error of the
  resolution, makes no removal and logs nothing. When the path resolves, it returns the
  error of the removal wrapped as "error attempting to delete file": for a missing file
  that the operating system reports with \<open>ENOENT\<close>, \<open>errors_Is\<close> against \<open>ErrNotExist\<close>
  holds of it; for a removal that the operating system fails with another error number
  (\<open>ENOTDIR\<close>, \<open>EACCES\<close>, ...), it holds exactly when that number is \<open>ENOENT\<close>. Whenever
  the path resolves, whether or not the removal succeeds, exactly the removal and one
  "delete file" event are added to the trace, the event carrying the activity "delete"
  and the absolute path, at error level exactly when \<open>DeleteFile\<close> fails.
\<close>

theorem DeleteFile_not_exist:
  "(files w (path_key en path) = None \<longrightarrow> fst (DeleteFile en ag path w) \<noteq> None) \<and>
   (filepath_Abs en path = Inl e \<longrightarrow>
      DeleteFile en ag path w =
        (Some (Errorf ''unable to get absolute path from %q: %w'' [path] e), w)) \<and>
   (filepath_Abs en path = Inr absPath \<longrightarrow>
      (files w (path_key en path) = None \<and> remove_fault en path = None \<longrightarrow>
         fst (DeleteFile en ag path w) =
           Some (Errorf ''error attempting to delete file: %w'' []
                   (PathError ''remove'' path (Errno ENOENT))) \<and>
         errors_Is (Errorf ''error attempting to delete file: %w'' []
                      (PathError ''remove'' path (Errno ENOENT))) ErrNotExist) \<and>
      (remove_fault en path = Some n \<longrightarrow>
         fst (DeleteFile en ag path w) =
           Some (Errorf ''error attempting to delete file: %w'' []
                   (PathError ''remove'' path (Errno n))) \<and>
         (errors_Is (Errorf ''error attempting to delete file: %w'' []
                       (PathError ''remove'' path (Errno n))) ErrNotExist \<longleftrightarrow> n = ENOENT)) \<and>
      (\<exists>lv d. trace (snd (DeleteFile en ag path w)) =
                 trace w @ [SysRemove path, LogEvent lv ''delete file'' d] \<and>
               d ''file activity'' = Some (FStr ''delete'') \<and>
               d ''file path'' = Some (FStr absPath) \<and>
               (lv = ErrorLevel \<longleftrightarrow> fst (DeleteFile en ag path w) \<noteq> None) \<and>
               (lv = InfoLevel \<longleftrightarrow> fst (DeleteFile en ag path w) = None)))"
proof -
  have A: "files w (path_key en path) = None \<longrightarrow> fst (DeleteFile en ag path w) \<noteq> None"
    by (cases "filepath_Abs en path"; cases "remove_fault en path")
       (simp_all add: DeleteFile_def os_Remove_def Let_def)
  have B: "filepath_Abs en path = Inl e \<longrightarrow>
      DeleteFile en ag path w =
        (Some (Errorf ''unable to get absolute path from %q: %w'' [path] e), w)"
    by (simp add: DeleteFile_def)
  have C: "filepath_Abs en path = Inr absPath \<longrightarrow>
      (files w (path_key en path) = None \<and> remove_fault en path = None \<longrightarrow>
         fst (DeleteFile en ag path w) =
           Some (Errorf ''error attempting to delete file: %w'' []
                   (PathError ''remove'' path (Errno ENOENT))) \<and>
         errors_Is (Errorf ''error attempting to delete file: %w'' []
                      (PathError ''remove'' path (Errno ENOENT))) ErrNotExist)"
    by (simp add: DeleteFile_def os_Remove_def Let_def)
  have D: "filepath_Abs en path = Inr absPath \<longrightarrow>
      (remove_fault en path = Some n \<longrightarrow>
         fst (DeleteFile en ag path w) =
           Some (Errorf ''error attempting to delete file: %w'' []
                   (PathError ''remove'' path (Errno n))) \<and>
         (errors_Is (Errorf ''error attempting to delete file: %w'' []
                       (PathError ''remove'' path (Errno n))) ErrNotExist \<longleftrightarrow> n = ENOENT))"
    by (cases n) (simp_all add: DeleteFile_def os_Remove_def Let_def)
  have E: "filepath_Abs en path = Inr absPath \<longrightarrow>
      (\<exists>lv d. trace (snd (DeleteFile en ag path w)) =
                 trace w @ [SysRemove path, LogEvent lv ''delete file'' d] \<and>
               d ''file activity'' = Some (FStr ''delete'') \<and>
               d ''file path'' = Some (FStr absPath) \<and>
               (lv = ErrorLevel \<longleftrightarrow> fst (DeleteFile en ag path w) \<noteq> None) \<and>
               (lv = InfoLevel \<longleftrightarrow> fst (DeleteFile en ag path w) = None))"
    by (cases "files w (path_key en path)"; cases "remove_fault en path")
       (simp_all add: DeleteFile_def os_Remove_def Let_def errLog_emit errEvent_def
          WithError_def WithField_def WithFields_def)
  from A B C D E show ?thesis by blast
qed

theorem DeleteFile_not_exist_witness:
  "files world0 (path_key env0 ''/tmp/does not exist'') = None \<and>
   filepath_Abs env0 ''/tmp/does not exist'' = Inr ''/tmp/does not exist'' \<and>
   remove_fault env0 ''/tmp/does not exist'' = None \<and>
   fst (DeleteFile env0 ag0 ''/tmp/does not exist'' world0) =
     Some (Errorf ''error attempting to delete file: %w'' []
             (PathError ''remove'' ''/tmp/does not exist'' (Errno ENOENT))) \<and>
   errors_Is (Errorf ''error attempting to delete file: %w'' []
                (PathError ''remove'' ''/tmp/does not exist'' (Errno ENOENT))) ErrNotExist \<and>
   remove_fault env_notdir ''/etc/passwd/x'' = Some ENOTDIR \<and>
   fst (DeleteFile env_notdir ag0 ''/etc/passwd/x'' world_passwd) =
     Some (Errorf ''error attempting to delete file: %w'' []
             (PathError ''remove'' ''/etc/passwd/x'' (Errno ENOTDIR))) \<and>
   filepath_Abs env_no_cwd ''x'' = Inl (Errno EACCES) \<and>
   DeleteFile env_no_cwd ag0 ''x'' world0 =
     (Some (Errorf ''unable to get absolute path from %q: %w'' [''x''] (Errno EACCES)), world0)"
proof -
  have h: "files world0 (path_key env0 ''/tmp/does not exist'') = None"
      "filepath_Abs env0 ''/tmp/does not exist'' = Inr ''/tmp/does not exist''"
      "remove_fault env0 ''/tmp/does not exist'' = None"
      "remove_fault env_notdir ''/etc/passwd/x'' = Some ENOTDIR"
      "filepath_Abs env_notdir ''/etc/passwd/x'' = Inr ''/etc/passwd/x''"
      "filepath_Abs env_no_cwd ''x'' = Inl (Errno EACCES)"
    by (simp_all add: world0_def env0_def env_notdir_def env_no_cwd_def)
  show ?thesis
    using h
      DeleteFile_not_exist [where w = world0 and en = env0 and path = "''/tmp/does not exist''"
        and absPath = "''/tmp/does not exist''" and ag = ag0]
      DeleteFile_not_exist [where w = world_passwd and en = env_notdir and path = "''/etc/passwd/x''"
        and absPath = "''/etc/passwd/x''" and n = ENOTDIR and ag = ag0]
      DeleteFile_not_exist [where w = world0 and en = env_no_cwd and path = "''x''"
        and e = "Errno EACCES" and ag = ag0]
    by simp
qed

text \<open>
  Counterexample to C6 as stated: \<^verbatim>\<open>/etc/passwd/x\<close> names no file, and its removal
  fails with \<open>ENOTDIR\<close>, since \<^verbatim>\<open>/etc/passwd\<close> is a file; the error \<open>DeleteFile\<close>
  returns wraps that, and \<open>errors_Is\<close> against \<open>ErrNotExist\<close> does not hold of it. And
  where no relative path resolves, \<open>DeleteFile\<close> of a relative path that names no file
  returns the error of the resolution, of which \<open>errors_Is\<close> against \<open>ErrNotExist\<close> does
  not hold either, and logs no "delete" event.
\<close>

theorem DeleteFile_not_exist_counterexample:
  "files world_passwd (path_key env_notdir ''/etc/passwd/x'') = None \<and>
   fst (DeleteFile env_notdir ag0 ''/etc/passwd/x'' world_passwd) =
     Some (Errorf ''error attempting to delete file: %w'' []
             (PathError ''remove'' ''/etc/passwd/x'' (Errno ENOTDIR))) \<and>
   \<not> errors_Is (Errorf ''error attempting to delete file: %w'' []
                  (PathError ''remove'' ''/etc/passwd/x'' (Errno ENOTDIR))) ErrNotExist \<and>
   files world0 (path_key env_no_cwd ''x'') = None \<and>
   fst (DeleteFile env_no_cwd ag0 ''x'' world0) =
     Some (Errorf ''unable to get absolute path from %q: %w'' [''x''] (Errno EACCES)) \<and>
   \<not> errors_Is (Errorf ''unable to get absolute path from %q: %w'' [''x''] (Errno EACCES))
        ErrNotExist \<and>
   logged (trace (snd (DeleteFile env_no_cwd ag0 ''x'' world0))) = []"
  by (simp add: world_passwd_def world0_def env_notdir_def env_no_cwd_def env0_def DeleteFile_def
      os_Remove_def Let_def errLog_emit logged_simps)

subsection \<open>The common fields\<close>




















subsection \<open>The loopback transport\<close>

text \<open>
  C2: for every payload \<open>p\<close>, the empty one included, however the reader hands it out and
  however the network segments it: when the listener, the dial, both connections and the
  sink raise no fault, \<open>LocalhostTCPConnect\<close> returns no error and the count
  \<open>length p\<close>, and the server-side task has written exactly \<open>p\<close> to the sink.
\<close>

theorem LocalhostTCPConnect_delivers:
  assumes listen: "listen_result en = Inr laddr"
    and ldl: "deadline c \<noteq> None \<Longrightarrow> listener_deadline_fault en = None"
    and dial: "dial_result en laddr = Inr (la, ra)"
    and cw: "cli_write_fault en = None"
    and cc: "cli_close_fault en = None"
    and acc: "accept_fault en = None"
    and sdl: "deadline c \<noteq> None \<Longrightarrow> srv_deadline_fault en = None"
    and sr: "srv_read_fault en = None"
    and snk: "wfail snk = None"
    and rd: "rerr rd = None" "concat (chunks rd) = p"
  shows "tr_sent (fst (LocalhostTCPConnect en c log rd snk w)) = length p \<and>
         tr_err (fst (LocalhostTCPConnect en c log rd snk w)) = None \<and>
         map_option (\<lambda>(e, s, a). (e, wbuf s))
             (tr_server (fst (LocalhostTCPConnect en c log rd snk w))) =
           Some (None, wbuf snk @ p)"
proof -
  have cl: "io_Copy (client_conn en) rd = (length p, None, (client_conn en)\<lparr>wbuf := p\<rparr>)"
    using cw rd by (simp add: io_Copy_no_fault client_conn_def)
  have srv: "server_task en (deadline c \<noteq> None) p snk =
      (None, snk\<lparr>wbuf := wbuf snk @ p\<rparr>,
       if deadline c \<noteq> None then [SysAccept, SysSetDeadline ServerConn] else [SysAccept])"
    using acc sdl sr snk
    by (cases "deadline c")
       (simp_all add: server_task_def server_conn_def io_Copy_no_fault concat_segments)
  show ?thesis
    using listen ldl dial cc cl srv
    by (cases "deadline c") (simp_all add: LocalhostTCPConnect_def transmit_def Let_def)
qed

theorem LocalhostTCPConnect_delivers_witness:
  "tr_sent (fst (LocalhostTCPConnect env0 ctx0 log0 (strings_NewReader ''hello'') sink0 world0)) = 5 \<and>
   tr_err (fst (LocalhostTCPConnect env0 ctx0 log0 (strings_NewReader ''hello'') sink0 world0)) = None \<and>
   map_option (\<lambda>(e, s, a). (e, wbuf s))
       (tr_server (fst (LocalhostTCPConnect env0 ctx0 log0 (strings_NewReader ''hello'') sink0 world0))) =
     Some (None, ''hello'') \<and>
   tr_sent (fst (LocalhostTCPConnect env0 ctx0 log0 (strings_NewReader []) sink0 world0)) = 0 \<and>
   map_option (\<lambda>(e, s, a). (e, wbuf s))
       (tr_server (fst (LocalhostTCPConnect env0 ctx0 log0 (strings_NewReader []) sink0 world0))) =
     Some (None, [])"
  using LocalhostTCPConnect_delivers [of env0 "''127.0.0.1:40000''" ctx0 "''127.0.0.1:50000''"
      "''127.0.0.1:40000''" sink0 "strings_NewReader ''hello''" "''hello''" log0 world0]
    LocalhostTCPConnect_delivers [of env0 "''127.0.0.1:40000''" ctx0 "''127.0.0.1:50000''"
      "''127.0.0.1:40000''" sink0 "strings_NewReader []" "[]" log0 world0]
  by (simp add: env0_def sink0_def strings_NewReader_def)

text \<open>
  C3 (as the code has it): when the client-side copy fails, its error is the one
  returned, wrapped as "error copying data to client connection", and the log calls of
  the operation are the "data transmission" event carrying that error and, when the
  listener's close fails, the "close TCP listener" event: nothing the server-side task
  does is returned or logged. When the client-side copy and close succeed, the operation
  takes the result of the server-side task before it returns, and a server-side error is
  the one returned, wrapped as "server listener error".
\<close>

theorem LocalhostTCPConnect_error_priority:
  assumes listen: "listen_result en = Inr laddr"
    and ldl: "deadline c \<noteq> None \<Longrightarrow> listener_deadline_fault en = None"
    and dial: "dial_result en laddr = Inr (la, ra)"
    and copy: "io_Copy (client_conn en) rd = (n, cerr, conn)"
  shows "(\<forall>e. cerr = Some e \<longrightarrow>
            tr_err (fst (LocalhostTCPConnect en c log rd snk w)) =
              Some (Errorf ''error copying data to client connection: %w'' [] e) \<and>
            map (\<lambda>(lv, m, d). (lv, m, d ''error''))
                (logged (trace (snd (LocalhostTCPConnect en c log rd snk w)))) =
              map (\<lambda>(lv, m, d). (lv, m, d ''error'')) (logged (trace w)) @
              [(ErrorLevel, ''data transmission'', Some (FErr e))] @
              (case listener_close_fault en of
                 Some x \<Rightarrow> [(ErrorLevel, ''close TCP listener'', Some (FErr x))]
               | None \<Rightarrow> [])) \<and>
         (cerr = None \<and> cli_close_fault en = None \<longrightarrow>
            tr_server (fst (LocalhostTCPConnect en c log rd snk w)) =
              Some (server_task en (deadline c \<noteq> None) (wbuf conn) snk) \<and>
            tr_err (fst (LocalhostTCPConnect en c log rd snk w)) =
              (case fst (server_task en (deadline c \<noteq> None) (wbuf conn) snk) of
                 Some e \<Rightarrow> Some (Errorf ''server listener error: %w'' [] e)
               | None \<Rightarrow> None))"
  using listen ldl dial copy
  by (cases "deadline c"; cases "listener_close_fault en")
     (auto simp add: LocalhostTCPConnect_def transmit_def Let_def run_defs logged_append
        logged_simps)

theorem LocalhostTCPConnect_error_priority_witness:
  "io_Copy (client_conn env_both_fail) (strings_NewReader ''hello'') =
     (2, Some (Errno EIO), \<lparr>wbuf = ''he'', wfail = Some (0, Errno EIO)\<rparr>) \<and>
   tr_err (fst (LocalhostTCPConnect env_both_fail ctx0 log0 (strings_NewReader ''hello'') sink0 world0)) =
     Some (Errorf ''error copying data to client connection: %w'' [] (Errno EIO)) \<and>
   io_Copy (client_conn env0) (strings_NewReader ''hello'') =
     (5, None, \<lparr>wbuf = ''hello'', wfail = None\<rparr>) \<and>
   tr_server (fst (LocalhostTCPConnect env0 ctx0 log0 (strings_NewReader ''hello'') sink0 world0)) =
     Some (None, \<lparr>wbuf = ''hello'', wfail = None\<rparr>, [SysAccept, SysSetDeadline ServerConn]) \<and>
   tr_err (fst (LocalhostTCPConnect env0 ctx0 log0 (strings_NewReader ''hello'') sink0 world0)) = None"
proof -
  have c1: "io_Copy (client_conn env_both_fail) (strings_NewReader ''hello'') =
     (2, Some (Errno EIO), \<lparr>wbuf = ''he'', wfail = Some (0, Errno EIO)\<rparr>)"
    by (simp add: io_Copy_def client_conn_def env_both_fail_def env0_def strings_NewReader_def
        writer_Write_def)
  have c2: "io_Copy (client_conn env0) (strings_NewReader ''hello'') =
     (5, None, \<lparr>wbuf = ''hello'', wfail = None\<rparr>)"
    by (simp add: io_Copy_def client_conn_def env0_def strings_NewReader_def writer_Write_def)
  have s2: "server_task env0 True ''hello'' sink0 =
     (None, \<lparr>wbuf = ''hello'', wfail = None\<rparr>, [SysAccept, SysSetDeadline ServerConn])"
    by (simp add: server_task_def server_conn_def env0_def sink0_def io_Copy_def writer_Write_def)
  have l1: "listen_result env_both_fail = Inr ''127.0.0.1:40000''"
    and d1: "dial_result env_both_fail ''127.0.0.1:40000'' = Inr (''127.0.0.1:50000'', ''127.0.0.1:40000'')"
    and f1: "listener_deadline_fault env_both_fail = None"
    by (simp_all add: env_both_fail_def env0_def)
  have l2: "listen_result env0 = Inr ''127.0.0.1:40000''"
    and d2: "dial_result env0 ''127.0.0.1:40000'' = Inr (''127.0.0.1:50000'', ''127.0.0.1:40000'')"
    and f2: "listener_deadline_fault env0 = None" and cc2: "cli_close_fault env0 = None"
    by (simp_all add: env0_def)
  show ?thesis
    using LocalhostTCPConnect_error_priority [OF l1 f1 d1 c1, of ctx0 log0 sink0 world0]
      LocalhostTCPConnect_error_priority [OF l2 f2 d2 c2, of ctx0 log0 sink0 world0]
      c1 c2 s2 cc2
    by (simp add: ctx0_def)
qed

text \<open>
  C3 fails as stated: with a client connection that fails after two bytes and an accept
  that fails, the server-side task returns an error, and the operation returns the
  client-side error without having taken the server-side result; its only log call is
  the "data transmission" event with the client-side error.
\<close>

theorem LocalhostTCPConnect_server_error_not_logged_counterexample:
  "fst (server_task env_both_fail True ''he'' sink0) =
     Some (Errorf ''error accepting connection: %w'' [] ErrDeadlineExceeded) \<and>
   tr_err (fst (LocalhostTCPConnect env_both_fail ctx0 log0 (strings_NewReader ''hello'') sink0 world0)) =
     Some (Errorf ''error copying data to client connection: %w'' [] (Errno EIO)) \<and>
   tr_server (fst (LocalhostTCPConnect env_both_fail ctx0 log0 (strings_NewReader ''hello'') sink0 world0)) =
     None \<and>
   map (\<lambda>(lv, m, d). (m, d ''error''))
     (logged (trace (snd (LocalhostTCPConnect env_both_fail ctx0 log0 (strings_NewReader ''hello'')
        sink0 world0)))) =
     [(''data transmission'', Some (FErr (Errno EIO)))]"
  by (simp add: env_both_fail_def env0_def server_task_def LocalhostTCPConnect_def transmit_def
      Let_def run_defs logged_append logged_simps ctx0_def world0_def strings_NewReader_def
      io_Copy_def client_conn_def writer_Write_def)

text \<open>
  C4, at two concrete runs. In the run where every call succeeds, the listener and the
  client connection are closed, and the connection the server-side task accepted is not:
  no close of it is among the system calls of either side. In the run where the client
  connection fails after two bytes, the client connection is not closed either.
\<close>

theorem LocalhostTCPConnect_leaves_connections_open:
  "tr_err (fst (LocalhostTCPConnect env0 ctx0 log0 (strings_NewReader ''hello'') sink0 world0)) = None \<and>
   map_option (\<lambda>(e, s, a). a)
     (tr_server (fst (LocalhostTCPConnect env0 ctx0 log0 (strings_NewReader ''hello'') sink0 world0))) =
     Some [SysAccept, SysSetDeadline ServerConn] \<and>
   filter is_sys
     (trace (snd (LocalhostTCPConnect env0 ctx0 log0 (strings_NewReader ''hello'') sink0 world0))) =
     [SysListen, SysSetDeadline Listener, SysDial ''127.0.0.1:40000'',
      SysWrite ClientConn ''hello'', SysClose ClientConn, SysClose Listener] \<and>
   filter is_sys
     (trace (snd (LocalhostTCPConnect (env0\<lparr>cli_write_fault := Some (2, Errno EIO)\<rparr>) ctx0 log0
        (strings_NewReader ''hello'') sink0 world0))) =
     [SysListen, SysSetDeadline Listener, SysDial ''127.0.0.1:40000'',
      SysWrite ClientConn ''he'', SysClose Listener]"
  by (simp add: env0_def server_task_def server_conn_def LocalhostTCPConnect_def transmit_def
      Let_def run_defs ctx0_def world0_def strings_NewReader_def io_Copy_def sink0_def
      client_conn_def writer_Write_def)

subsection \<open>Connecting to an address\<close>

text \<open>
  C10: for every context and address, \<open>ConnectAndTransmit\<close> with a nil payload reader
  returns the error "invalid nil payload io.Reader" and leaves the world as it was: no
  dial, no other system call and no log call is added to the trace.
\<close>

theorem ConnectAndTransmit_nil_payload:
  "ConnectAndTransmit en ag c addr None w = (Some (New ''invalid nil payload io.Reader''), w)"
  by (simp add: ConnectAndTransmit_def)

end
